theory Spec2Isabelle
  imports Complex_Main
begin

section \<open>JavaScript numbers\<close>

text \<open>
  The TypeScript type \<^verbatim>\<open>number\<close> is an IEEE 754 binary64 value. A finite double is
  represented by the rational it denotes; \<open>Fin 0\<close> is \<open>+0\<close> and \<open>NegZero\<close> is \<open>-0\<close>.
  Equality of the datatype is JavaScript's \<^verbatim>\<open>Object.is\<close> (what \<^verbatim>\<open>toBe\<close> checks):
  \<open>NaN\<close> equals itself and the two zeros differ. The operators \<^verbatim>\<open>===\<close>,
  \<^verbatim>\<open><=\<close>, \<^verbatim>\<open>>\<close>, \<^verbatim>\<open>/\<close> and \<^verbatim>\<open>*\<close> are defined below.
\<close>

datatype number = NaN | PosInf | NegInf | NegZero | Fin rat

definition is_zero :: "number \<Rightarrow> bool" where
  "is_zero x = (x = Fin 0 \<or> x = NegZero)"

definition is_inf :: "number \<Rightarrow> bool" where
  "is_inf x = (x = PosInf \<or> x = NegInf)"


fun negative :: "number \<Rightarrow> bool" where
  "negative NegInf = True"
| "negative NegZero = True"
| "negative (Fin q) = (q < 0)"
| "negative _ = False"

fun rat_of :: "number \<Rightarrow> rat" where
  "rat_of (Fin q) = q"
| "rat_of _ = 0"

definition signed_zero :: "bool \<Rightarrow> number" where
  "signed_zero s = (if s then NegZero else Fin 0)"

definition signed_inf :: "bool \<Rightarrow> number" where
  "signed_inf s = (if s then NegInf else PosInf)"

text \<open>\<^verbatim>\<open>x === y\<close> on numbers: false when either side is NaN, and \<open>+0 === -0\<close>.\<close>

definition strict_eq :: "number \<Rightarrow> number \<Rightarrow> bool" where
  "strict_eq x y = (x \<noteq> NaN \<and> y \<noteq> NaN \<and> (x = y \<or> (is_zero x \<and> is_zero y)))"



text \<open>
  Rounding of an exact result to the nearest double, ties to even: 53 significant bits,
  least exponent \<open>-1074\<close> (subnormals), overflow to infinity from \<open>2 ^ 1024\<close> on, and
  a result that rounds to zero keeps the sign of the exact value.
\<close>

function bit_length :: "int \<Rightarrow> int" where
  "bit_length n = (if n \<le> 0 then 0 else 1 + bit_length (n div 2))"
  by pat_completeness auto
termination
  by (relation "measure nat") auto

declare bit_length.simps [simp del]

definition floor_log2 :: "rat \<Rightarrow> int" where
  "floor_log2 q =
     (let (n, d) = quotient_of q;
          k = bit_length n - bit_length d
      in if 2 powi k \<le> q then k else k - 1)"

definition round_half_even :: "rat \<Rightarrow> int" where
  "round_half_even x =
     (let r = \<lfloor>x\<rfloor>; f = x - of_int r
      in if f < 1 / 2 then r
         else if 1 / 2 < f then r + 1
         else if even r then r else r + 1)"

definition round_double :: "rat \<Rightarrow> number" where
  "round_double q =
     (let a = \<bar>q\<bar>;
          e = max (floor_log2 a - 52) (- 1074);
          m = round_half_even (a / 2 powi e);
          v = of_int m * 2 powi e
      in if 2 ^ 1024 \<le> v then signed_inf (q < 0)
         else if m = 0 then signed_zero (q < 0)
         else Fin (if q < 0 then - v else v))"

text \<open>\<^verbatim>\<open>x / y\<close> and \<^verbatim>\<open>x * y\<close> on numbers.\<close>

definition js_div :: "number \<Rightarrow> number \<Rightarrow> number" where
  "js_div x y =
     (if x = NaN \<or> y = NaN then NaN
      else let s = (negative x \<noteq> negative y)
           in if is_inf x then (if is_inf y then NaN else signed_inf s)
              else if is_inf y then signed_zero s
              else if is_zero y then (if is_zero x then NaN else signed_inf s)
              else if is_zero x then signed_zero s
              else round_double (rat_of x / rat_of y))"

definition js_mul :: "number \<Rightarrow> number \<Rightarrow> number" where
  "js_mul x y =
     (if x = NaN \<or> y = NaN then NaN
      else let s = (negative x \<noteq> negative y)
           in if is_inf x \<or> is_inf y then (if is_zero x \<or> is_zero y then NaN else signed_inf s)
              else if is_zero x \<or> is_zero y then signed_zero s
              else round_double (rat_of x * rat_of y))"

section \<open>Error objects\<close>

text \<open>
  An instance of the built-in \<^verbatim>\<open>Error\<close> or of the test file's subclass
  \<^verbatim>\<open>CustomError\<close>: its class (the prototype that \<^verbatim>\<open>instanceof\<close> follows), its
  \<^verbatim>\<open>name\<close>, its \<^verbatim>\<open>message\<close> and its optional \<^verbatim>\<open>cause\<close>. The engine's
  \<^verbatim>\<open>stack\<close> string is left out.
\<close>

datatype error_class = Error_class | CustomError_class

datatype Error =
  ErrorObject (proto: error_class) (name: string) (message: string) (cause: "Error option")

text \<open>\<^verbatim>\<open>new Error(message)\<close> and \<^verbatim>\<open>new Error(message, { cause })\<close>.\<close>

definition new_Error :: "string \<Rightarrow> Error option \<Rightarrow> Error" where
  "new_Error msg c = ErrorObject Error_class ''Error'' msg c"

text \<open>
  \<^verbatim>\<open>new CustomError(message)\<close>: the constructor calls \<^verbatim>\<open>super(message)\<close> and then
  sets \<^verbatim>\<open>this.name = "CustomError"\<close>.
\<close>

definition new_CustomError :: "string \<Rightarrow> Error" where
  "new_CustomError msg =
     (case new_Error msg None of
        ErrorObject _ _ m c \<Rightarrow> ErrorObject CustomError_class ''CustomError'' m c)"

text \<open>\<^verbatim>\<open>e instanceof C\<close>: \<^verbatim>\<open>CustomError\<close> extends \<^verbatim>\<open>Error\<close>.\<close>

fun instanceof :: "Error \<Rightarrow> error_class \<Rightarrow> bool" where
  "instanceof e Error_class = True"
| "instanceof e CustomError_class = (proto e = CustomError_class)"

section \<open>The Result type and its constructors\<close>

text \<open>
  \<^verbatim>\<open>type Result<T, E = Error> = { success: true; value: T } | { success: false; error: E }\<close>.
  \<open>Success v\<close> is the object \<^verbatim>\<open>{ success: true, value: v }\<close> and \<open>Failure e\<close> is
  \<^verbatim>\<open>{ success: false, error: e }\<close>. Reading a property gives the field when the
  object has it and \<open>None\<close> (JavaScript's \<^verbatim>\<open>undefined\<close> for an absent property)
  otherwise.
\<close>

datatype ('t, 'e) Result = Success 't | Failure 'e

fun success :: "('t, 'e) Result \<Rightarrow> bool" where
  "success (Success v) = True"
| "success (Failure e) = False"

fun get_value :: "('t, 'e) Result \<Rightarrow> 't option" where
  "get_value (Success v) = Some v"
| "get_value (Failure e) = None"

fun get_error :: "('t, 'e) Result \<Rightarrow> 'e option" where
  "get_error (Success v) = None"
| "get_error (Failure e) = Some e"

text \<open>
  \<^verbatim>\<open>function ok<T>(value: T): Result<T>\<close>: the error type is the default,
  \<^verbatim>\<open>Error\<close>.
\<close>

definition ok :: "'t \<Rightarrow> ('t, Error) Result" where
  "ok v = Success v"

text \<open>
  \<^verbatim>\<open>function err<E = Error>(error: E): Result<any, E>\<close>: the success type is
  \<^verbatim>\<open>any\<close>, here a type variable of its own.
\<close>

definition err :: "'e \<Rightarrow> ('t, 'e) Result" where
  "err e = Failure e"

subsection \<open>The declared types of the constructors\<close>



subsection \<open>Objects in the store\<close>

text \<open>
  Both constructors return an object literal, which JavaScript evaluates to a newly
  allocated object whose properties are writable: neither constructor calls
  \<^verbatim>\<open>Object.freeze\<close>, and the type declares no field \<^verbatim>\<open>readonly\<close>. The store
  lists the Result objects allocated so far, an object's address being its index, each
  with the flag that \<^verbatim>\<open>Object.freeze\<close> sets. Reading \<^verbatim>\<open>result.success\<close>
  leaves the store as it is.
\<close>

record ('t, 'e) object =
  frozen :: bool
  content :: "('t, 'e) Result"

type_synonym ('t, 'e) store = "('t, 'e) object list"

definition lookup :: "('t, 'e) store \<Rightarrow> nat \<Rightarrow> ('t, 'e) object option" where
  "lookup st a = (if a < length st then Some (st ! a) else None)"

definition new_object :: "('t, 'e) Result \<Rightarrow> ('t, 'e) store \<Rightarrow> nat \<times> ('t, 'e) store" where
  "new_object obj st = (length st, st @ [\<lparr>frozen = False, content = obj\<rparr>])"

definition ok_new :: "'t \<Rightarrow> ('t, Error) store \<Rightarrow> nat \<times> ('t, Error) store" where
  "ok_new v st = new_object (ok v) st"



text \<open>
  What the language lets a caller do with a Result it holds. \<^verbatim>\<open>Object.freeze(result)\<close>
  sets the flag. The assignment \<^verbatim>\<open>result.value = v\<close> type-checks where \<open>result\<close> is
  narrowed to the success variant; in a module (strict mode) it throws a TypeError on a
  frozen object and otherwise writes the field of the object in place.
\<close>

datatype assign_error = TypeError | Not_success_variant

definition freeze :: "nat \<Rightarrow> ('t, 'e) store \<Rightarrow> ('t, 'e) store" where
  "freeze a st =
     (case lookup st a of
        None \<Rightarrow> st
      | Some c \<Rightarrow> st[a := c\<lparr>frozen := True\<rparr>])"

definition assign_value :: "nat \<Rightarrow> 't \<Rightarrow> ('t, 'e) store \<Rightarrow> assign_error + ('t, 'e) store" where
  "assign_value a v st =
     (case lookup st a of
        None \<Rightarrow> Inl Not_success_variant
      | Some c \<Rightarrow>
          (case content c of
             Failure e \<Rightarrow> Inl Not_success_variant
           | Success old \<Rightarrow>
               if frozen c then Inl TypeError
               else Inr (st[a := c\<lparr>content := Success v\<rparr>])))"

section \<open>The functions of the test file\<close>

text \<open>
  \<^verbatim>\<open>function divide(a: number, b: number): Result<number>\<close>.
\<close>

definition divide_js :: "number \<Rightarrow> number \<Rightarrow> (number, Error) Result" where
  "divide_js a b =
     (if strict_eq b (Fin 0) then err (new_Error ''Division by zero'' None)
      else ok (js_div a b))"

text \<open>
  \<^verbatim>\<open>function complexOperation(input: number): Result<number, Error>\<close>. On the
  success path \<^verbatim>\<open>divideResult.value * 2\<close> with an absent \<^verbatim>\<open>value\<close> would be
  \<^verbatim>\<open>undefined * 2\<close>, which is NaN.
\<close>

definition complexOperation :: "number \<Rightarrow> (number, Error) Result" where
  "complexOperation input =
     (let divideResult = divide_js (Fin 10) input
      in if \<not> success divideResult
         then err (new_Error ''Complex operation failed'' (get_error divideResult))
         else ok (case get_value divideResult of
                    Some v \<Rightarrow> js_mul v (Fin 2)
                  | None \<Rightarrow> NaN))"








section \<open>Evaluation of the operators\<close>

text \<open>
  \<open>floor_log2 q\<close> is the binary exponent of a positive rational \<open>q\<close>, the one that
  \<open>round_double\<close> starts from.
\<close>

lemma bit_length_bounds:
  "0 < n \<Longrightarrow> 2 ^ nat (bit_length n - 1) \<le> n \<and> n < 2 ^ nat (bit_length n) \<and> 1 \<le> bit_length n"
proof (induction n rule: bit_length.induct)
  case (1 n)
  show ?case
  proof (cases "n = 1")
    case True
    then show ?thesis by (simp add: bit_length.simps [of 1] bit_length.simps [of 0])
  next
    case False
    with 1 have pos: "0 < n div 2" by simp
    from 1 pos have IH: "2 ^ nat (bit_length (n div 2) - 1) \<le> n div 2"
      "n div 2 < 2 ^ nat (bit_length (n div 2))" "1 \<le> bit_length (n div 2)"
      by simp_all
    have eq: "bit_length n = 1 + bit_length (n div 2)"
      using 1(2) by (subst bit_length.simps) simp
    have n1: "nat (bit_length n - 1) = Suc (nat (bit_length (n div 2) - 1))"
      using IH(3) eq by simp
    have n2: "nat (bit_length n) = Suc (nat (bit_length (n div 2)))"
      using IH(3) eq by simp
    show ?thesis using IH eq unfolding n1 n2 by simp linarith
  qed
qed

lemma pow2_int_bounds:
  assumes "2 ^ nat (b - 1) \<le> n" "n < 2 ^ nat b" "1 \<le> (b::int)"
  shows "(2::rat) powi (b - 1) \<le> of_int n" "(of_int n :: rat) < 2 powi b"
proof -
  have "(2::rat) powi (b - 1) = of_int (2 ^ nat (b - 1))"
    using assms(3) by (simp add: power_int_def)
  then show "(2::rat) powi (b - 1) \<le> of_int n"
    using assms(1) by (simp only: of_int_le_iff)
  have "(2::rat) powi b = of_int (2 ^ nat b)"
    using assms(3) by (simp add: power_int_def)
  then show "(of_int n :: rat) < 2 powi b"
    using assms(2) by (simp only: of_int_less_iff)
qed

lemma floor_log2_correct:
  assumes "0 < q"
  shows "2 powi floor_log2 q \<le> q \<and> q < 2 powi (floor_log2 q + 1)"
proof -
  obtain n d where nd: "quotient_of q = (n, d)" by (cases "quotient_of q")
  then have d: "0 < d" and q: "q = of_int n / of_int d"
    using quotient_of_denom_pos quotient_of_div by blast+
  with assms have n: "0 < n" by (simp add: zero_less_divide_iff)
  define bn where "bn = bit_length n"
  define bd where "bd = bit_length d"
  define k where "k = bn - bd"
  from bit_length_bounds [OF n] have N: "2 ^ nat (bn - 1) \<le> n" "n < 2 ^ nat bn" "1 \<le> bn"
    by (simp_all add: bn_def)
  from bit_length_bounds [OF d] have D: "2 ^ nat (bd - 1) \<le> d" "d < 2 ^ nat bd" "1 \<le> bd"
    by (simp_all add: bd_def)
  have fl: "floor_log2 q = (if 2 powi k \<le> q then k else k - 1)"
    by (simp add: floor_log2_def nd k_def bn_def bd_def Let_def)
  note Nr = pow2_int_bounds [OF N]
  note Dr = pow2_int_bounds [OF D]
  have dpos: "(0::rat) < of_int d" using d by simp
  have p1: "(0::rat) < 2 powi (bd - 1)" and p2: "(0::rat) < 2 powi bd" by simp_all
  have "q < 2 powi bn / 2 powi (bd - 1)"
    unfolding q using Nr(2) Dr(1) dpos p1 n
    by (intro frac_less) simp_all
  also have "\<dots> = 2 powi (k + 1)"
    by (simp add: k_def power_int_diff [symmetric] algebra_simps)
  finally have up: "q < 2 powi (k + 1)" .
  have "(2::rat) powi (bn - 1) / 2 powi bd \<le> q"
    unfolding q using Nr(1) Dr(2) dpos p1 p2 n
    by (intro frac_le) simp_all
  moreover have "(2::rat) powi (bn - 1) / 2 powi bd = 2 powi (k - 1)"
    by (simp add: k_def power_int_diff [symmetric] algebra_simps)
  ultimately have lo: "2 powi (k - 1) \<le> q" by simp
  show ?thesis using up lo by (auto simp: fl)
qed

text \<open>Rounding to 53 bits: an inexact quotient, and a tie that goes to the even neighbour.\<close>

lemma round_double_third: "round_double (1 / 3) = Fin (6004799503160661 / 2 ^ 54)"
  by code_simp

lemma round_double_tie: "round_double (2 ^ 53 + 1) = Fin (2 ^ 53)"
  by code_simp

lemma js_div_10_2: "js_div (Fin 10) (Fin 2) = Fin 5"
  by code_simp

lemma js_mul_5_2: "js_mul (Fin 5) (Fin 2) = Fin 10"
  by code_simp

lemma strict_eq_zero: "strict_eq b (Fin 0) = is_zero b"
  by (auto simp: strict_eq_def is_zero_def)

section \<open>The constructors\<close>

text \<open>
  C1. For every value \<open>v\<close>, of any type and with no condition on it, \<open>ok v\<close> is a Result
  whose \<open>success\<close> field is true and whose \<open>value\<close> field is \<open>v\<close> itself; it has no
  \<open>error\<close> field.
\<close>

theorem ok_success:
  "success (ok v) = True \<and> get_value (ok v) = Some v \<and> get_error (ok v) = None"
  by (simp add: ok_def)

text \<open>
  C2. For every error value \<open>e\<close>, of any type, \<open>err e\<close> is a Result whose \<open>success\<close>
  field is false and whose \<open>error\<close> field is \<open>e\<close> itself; it has no \<open>value\<close> field.
  For an error object \<open>x\<close> the message, the name and the class read back from the Result
  are those of \<open>x\<close>, and the error read back from \<open>err (new CustomError(msg))\<close> is that
  object, with message \<open>msg\<close>, an instance of \<^verbatim>\<open>CustomError\<close> and of \<^verbatim>\<open>Error\<close>.
\<close>

theorem err_failure:
  "success (err e) = False \<and> get_error (err e) = Some e \<and> get_value (err e) = None
   \<and> map_option message (get_error (err x)) = Some (message x)
   \<and> map_option name (get_error (err x)) = Some (name x)
   \<and> map_option proto (get_error (err x)) = Some (proto x)
   \<and> (\<exists>c. get_error (err (new_CustomError msg)) = Some c
          \<and> c = new_CustomError msg
          \<and> message c = msg \<and> name c = ''CustomError''
          \<and> instanceof c CustomError_class \<and> instanceof c Error_class)"
  by (simp add: err_def new_CustomError_def new_Error_def)

text \<open>
  C3. Every Result is exactly one of the two variants. When its \<open>success\<close> field is true
  it is the success variant, its \<open>value\<close> field is present and it has no \<open>error\<close>
  field; when its \<open>success\<close> field is false it is the failure variant, its \<open>error\<close>
  field is present and it has no \<open>value\<close> field.
\<close>

theorem Result_discriminant:
  "((\<exists>v. r = Success v) \<noteq> (\<exists>e. r = Failure e))
   \<and> (success r \<longrightarrow> (\<exists>v. r = Success v \<and> get_value r = Some v) \<and> get_error r = None)
   \<and> (\<not> success r \<longrightarrow> (\<exists>e. r = Failure e \<and> get_error r = Some e) \<and> get_value r = None)"
  by (cases r) simp_all

theorem Result_discriminant_witness:
  "success (ok (42::int))
   \<and> (\<exists>v. ok (42::int) = Success v \<and> get_value (ok (42::int)) = Some v)
   \<and> get_error (ok (42::int)) = None
   \<and> \<not> success (err ''e'' :: (int, string) Result)
   \<and> (\<exists>e. (err ''e'' :: (int, string) Result) = Failure e
          \<and> get_error (err ''e'' :: (int, string) Result) = Some e)
   \<and> get_value (err ''e'' :: (int, string) Result) = None"
  using Result_discriminant [of "ok (42::int)"]
    Result_discriminant [of "err ''e'' :: (int, string) Result"]
  by (simp add: ok_def err_def)

text \<open>
  C9. The two constructors never build the same Result, and each of them is injective:
  \<open>ok v\<close> differs from \<open>err e\<close>, equal results of \<open>ok\<close> come from equal values and
  equal results of \<open>err\<close> come from equal errors.
\<close>

theorem constructors_disjoint_injective:
  "ok v \<noteq> err e \<and> (ok v1 = ok v2 \<longrightarrow> v1 = v2) \<and> (err e1 = err e2 \<longrightarrow> e1 = e2)"
  by (simp add: ok_def err_def)

theorem constructors_disjoint_injective_witness:
  "ok (42::int) \<noteq> err (new_Error ''boom'' None)
   \<and> ok (42::int) = ok 42 \<and> (42::int) = 42
   \<and> (err ''x'' :: (int, string) Result) = err ''x'' \<and> ''x'' = ''x''"
  using constructors_disjoint_injective
    [of "42::int" "new_Error ''boom'' None" "42::int" 42 "''x''" "''x''"]
  by simp






text \<open>Only a frozen object refuses the assignment, and no constructor freezes its result.\<close>

lemma assign_value_frozen:
  "assign_value (fst (ok_new v st)) w (freeze (fst (ok_new v st)) (snd (ok_new v st)))
     = Inl TypeError"
  by (simp add: ok_new_def new_object_def freeze_def assign_value_def lookup_def ok_def)

section \<open>The functions of the test file\<close>

text \<open>
  C4. \<open>divide(a, b)\<close> is \<open>err(new Error("Division by zero"))\<close> when \<^verbatim>\<open>b === 0\<close> and
  \<open>ok(a / b)\<close> otherwise. \<open>divide(10, 2)\<close> is a success with value 5, and
  \<open>divide(10, 0)\<close> is a failure whose error has the message "Division by zero".
\<close>

theorem divide_result:
  "(strict_eq b (Fin 0) \<longrightarrow> divide_js a b = err (new_Error ''Division by zero'' None))
   \<and> (\<not> strict_eq b (Fin 0) \<longrightarrow> divide_js a b = ok (js_div a b))
   \<and> success (divide_js (Fin 10) (Fin 2)) = True
   \<and> get_value (divide_js (Fin 10) (Fin 2)) = Some (Fin 5)
   \<and> success (divide_js (Fin 10) (Fin 0)) = False
   \<and> map_option message (get_error (divide_js (Fin 10) (Fin 0))) = Some ''Division by zero''"
  by (simp add: divide_js_def strict_eq_zero is_zero_def js_div_10_2 ok_def err_def
      new_Error_def)

theorem divide_result_witness:
  "strict_eq NegZero (Fin 0)
   \<and> divide_js (Fin 7) NegZero = err (new_Error ''Division by zero'' None)
   \<and> \<not> strict_eq (Fin 2) (Fin 0) \<and> divide_js (Fin 10) (Fin 2) = ok (Fin 5)"
  using divide_result [of NegZero "Fin 7"] divide_result [of "Fin 2" "Fin 10"]
  by (simp add: strict_eq_zero is_zero_def js_div_10_2)

text \<open>
  C5. \<open>complexOperation(input)\<close> calls \<open>divide(10, input)\<close>. Whenever that result is a
  failure, it returns a failure of its own whose error has the message
  "Complex operation failed" and whose cause is present and is the error that
  \<open>divide(10, input)\<close> returned. This is the case for every input with
  \<^verbatim>\<open>input === 0\<close>, \<open>-0\<close> included, where the cause has the message
  "Division by zero"; for every other input the result is \<open>ok\<close> of the quotient
  times 2. In particular it holds of \<open>complexOperation(0)\<close>.
\<close>

theorem complexOperation_failure:
  "(\<not> success (divide_js (Fin 10) input) \<longrightarrow>
      get_error (divide_js (Fin 10) input) \<noteq> None
      \<and> complexOperation input
          = err (new_Error ''Complex operation failed'' (get_error (divide_js (Fin 10) input))))
   \<and> (strict_eq input (Fin 0) \<longrightarrow>
      \<not> success (divide_js (Fin 10) input)
      \<and> (\<exists>e c. complexOperation input = err e
            \<and> success (complexOperation input) = False
            \<and> get_error (complexOperation input) = Some e
            \<and> message e = ''Complex operation failed''
            \<and> cause e = Some c
            \<and> get_error (divide_js (Fin 10) input) = Some c
            \<and> message c = ''Division by zero''))
   \<and> (\<not> strict_eq input (Fin 0) \<longrightarrow>
      success (divide_js (Fin 10) input)
      \<and> complexOperation input = ok (js_mul (js_div (Fin 10) input) (Fin 2)))
   \<and> (\<exists>e c. complexOperation (Fin 0) = err e
         \<and> success (complexOperation (Fin 0)) = False
         \<and> get_error (complexOperation (Fin 0)) = Some e
         \<and> message e = ''Complex operation failed''
         \<and> cause e = Some c
         \<and> get_error (divide_js (Fin 10) (Fin 0)) = Some c
         \<and> message c = ''Division by zero'')"
  by (simp add: complexOperation_def divide_js_def strict_eq_zero is_zero_def err_def ok_def
      new_Error_def)

theorem complexOperation_failure_witness:
  "strict_eq NegZero (Fin 0)
   \<and> \<not> success (divide_js (Fin 10) NegZero)
   \<and> complexOperation NegZero
       = err (new_Error ''Complex operation failed'' (Some (new_Error ''Division by zero'' None)))
   \<and> get_error (divide_js (Fin 10) NegZero) = Some (new_Error ''Division by zero'' None)
   \<and> \<not> strict_eq (Fin 2) (Fin 0)
   \<and> complexOperation (Fin 2) = ok (Fin 10)"
  using complexOperation_failure [of NegZero] complexOperation_failure [of "Fin 2"]
  by (simp add: strict_eq_zero is_zero_def divide_js_def err_def js_div_10_2 js_mul_5_2)

lemma complexOperation_success: "complexOperation (Fin 2) = ok (Fin 10)"
  by (simp add: complexOperation_def divide_js_def strict_eq_zero is_zero_def ok_def
      js_div_10_2 js_mul_5_2)




end
